theory Spec2Isabelle
  imports Complex_Main "HOL-Library.Word"
begin

section \<open>Sleep-environment monitor (\<^verbatim>\<open>The_arduino_temp_code.cpp\<close>)\<close>

text \<open>
  The sketch polls a DHT11 sensor, classifies the temperature into an alert state and
  drives a buzzer, with a mute button. The globals of the sketch become a record that
  every function takes and returns; what the sketch does to its pins, the serial port
  and the clock becomes a list of actions, in program order; what it reads from the
  outside (button level, sensor values, \<open>millis()\<close>) is the input of a cycle.
\<close>

subsection \<open>Values of type \<open>float\<close>\<close>

text \<open>
  A \<open>float\<close> is a finite number, an infinity or not-a-number. A finite float is
  modelled by the real number it denotes (every float is one; not every real is a
  float, so a statement for all reals covers all floats). The sketch only compares
  floats; a comparison with a NaN operand is false, as IEEE 754 has it.
\<close>

datatype cfloat = Finite real | PosInf | NegInf | NaN

fun isnan :: "cfloat \<Rightarrow> bool" where
  "isnan NaN = True"
| "isnan _ = False"

fun f_le :: "cfloat \<Rightarrow> cfloat \<Rightarrow> bool" where
  "f_le NaN _ = False"
| "f_le _ NaN = False"
| "f_le NegInf _ = True"
| "f_le _ PosInf = True"
| "f_le (Finite a) (Finite b) = (a \<le> b)"
| "f_le PosInf _ = False"
| "f_le (Finite a) NegInf = False"

fun f_lt :: "cfloat \<Rightarrow> cfloat \<Rightarrow> bool" where
  "f_lt NaN _ = False"
| "f_lt _ NaN = False"
| "f_lt (Finite a) (Finite b) = (a < b)"
| "f_lt PosInf _ = False"
| "f_lt _ NegInf = False"
| "f_lt NegInf _ = True"
| "f_lt (Finite a) PosInf = True"

fun f_eq :: "cfloat \<Rightarrow> cfloat \<Rightarrow> bool" where
  "f_eq NaN _ = False"
| "f_eq _ NaN = False"
| "f_eq (Finite a) (Finite b) = (a = b)"
| "f_eq PosInf PosInf = True"
| "f_eq NegInf NegInf = True"
| "f_eq _ _ = False"

definition f_ge :: "cfloat \<Rightarrow> cfloat \<Rightarrow> bool" where
  "f_ge x y = f_le y x"

definition f_gt :: "cfloat \<Rightarrow> cfloat \<Rightarrow> bool" where
  "f_gt x y = f_lt y x"

text \<open>
  The thresholds are \<open>int\<close> macros; in a comparison with a \<open>float\<close> the usual
  arithmetic conversions turn them into floats, exactly for integers this small.
\<close>

definition float_of_int :: "int \<Rightarrow> cfloat" where
  "float_of_int n = Finite (of_int n)"

subsection \<open>Constants\<close>

definition BUZZER_PIN :: nat where "BUZZER_PIN = 8"
definition BUTTON_PIN :: nat where "BUTTON_PIN = 2"

text \<open>\<open>unsigned long\<close> is 32 bits wide on the Arduino boards; subtraction wraps.\<close>

type_synonym ulong = "32 word"

definition ALERT_INTERVAL :: int where "ALERT_INTERVAL = 5000"
definition SERIAL_REFRESH :: int where "SERIAL_REFRESH = 1000"

definition TEMP_OPTIMAL_LOW :: int where "TEMP_OPTIMAL_LOW = 22"
definition TEMP_OPTIMAL_HIGH :: int where "TEMP_OPTIMAL_HIGH = 24"
definition TEMP_NEAR_LOW :: int where "TEMP_NEAR_LOW = 20"
definition TEMP_NEAR_HIGH :: int where "TEMP_NEAR_HIGH = 26"
definition TEMP_CLOSE :: int where "TEMP_CLOSE = 25"

subsection \<open>State\<close>

datatype AlertState = IDLE | OPTIMAL | CLOSE | NEAR | MUTE

record sys =
  currentState :: AlertState
  systemMuted :: bool
  lastAlertTime :: ulong
  lastSerialUpdate :: ulong

text \<open>The initialisers of the globals.\<close>

definition initial :: sys where
  "initial = \<lparr>currentState = IDLE, systemMuted = False,
              lastAlertTime = 0, lastSerialUpdate = 0\<rparr>"

subsection \<open>State evaluation\<close>

definition evaluateState :: "cfloat \<Rightarrow> sys \<Rightarrow> sys" where
  "evaluateState temp s =
     (if f_ge temp (float_of_int TEMP_OPTIMAL_LOW) \<and> f_le temp (float_of_int TEMP_OPTIMAL_HIGH)
      then s\<lparr>currentState := OPTIMAL\<rparr>
      else if f_eq temp (float_of_int TEMP_CLOSE)
      then s\<lparr>currentState := CLOSE\<rparr>
      else if (f_ge temp (float_of_int TEMP_NEAR_LOW) \<and> f_lt temp (float_of_int TEMP_OPTIMAL_LOW))
            \<or> (f_gt temp (float_of_int TEMP_OPTIMAL_HIGH) \<and> f_le temp (float_of_int TEMP_NEAR_HIGH))
      then s\<lparr>currentState := NEAR\<rparr>
      else s\<lparr>currentState := IDLE\<rparr>)"

subsection \<open>Actions on the outside world\<close>

text \<open>
  Every call that acts on a pin, the serial port, the sensor driver or the clock is
  recorded, in program order. The texts are the sketch's messages without their
  characters outside ASCII (the pictographs and the degree sign), each character of
  ASCII kept as it is.
\<close>

datatype level = LOW | HIGH

datatype pin_mode = OUTPUT | INPUT_PULLUP

datatype action =
    PinMode nat pin_mode
  | SerialBegin nat
  | DhtBegin
  | SerialPrint string
  | SerialPrintFloat cfloat
  | SerialPrintln string
  | Tone nat nat "nat option"
  | NoTone nat
  | Delay nat

text \<open>An alert fires when a tone is started on the buzzer.\<close>

fun is_tone :: "action \<Rightarrow> bool" where
  "is_tone (Tone p f d) = True"
| "is_tone _ = False"

definition alert_fired :: "action list \<Rightarrow> bool" where
  "alert_fired acts = list_ex is_tone acts"

subsection \<open>Print helpers and sounds\<close>

definition printHeader :: "action list" where
  "printHeader =
     [SerialPrintln ''=========================================='',
      SerialPrintln '' Sleep Temp & Humidity Monitor - v1.0 '',
      SerialPrintln ''=========================================='']"

definition printDivider :: "action list" where
  "printDivider = [SerialPrintln ''------------------------------------------'']"

definition showMutedMessage :: "action list" where
  "showMutedMessage = [SerialPrintln '' SYSTEM IS IN SILENT MODE'']"

definition soundChime :: "action list" where
  "soundChime = [Tone BUZZER_PIN 1500 (Some 200)]"

definition soundBeep :: "action list" where
  "soundBeep = [Tone BUZZER_PIN 1000 (Some 200)]"

definition soundLongBeep :: "action list" where
  "soundLongBeep = [Tone BUZZER_PIN 1000 None, Delay 5000, NoTone BUZZER_PIN]"

definition stopAlerts :: "action list" where
  "stopAlerts = [NoTone BUZZER_PIN]"

subsection \<open>Setup\<close>

definition initializeSystem :: "action list" where
  "initializeSystem =
     [PinMode BUZZER_PIN OUTPUT, PinMode BUTTON_PIN INPUT_PULLUP, SerialBegin 9600, DhtBegin]
     @ printHeader
     @ [SerialPrintln '' System Ready: Monitoring Sleep Environment'']
     @ printDivider"

text \<open>The sketch's \<open>setup()\<close>; the name is suffixed, \<open>setup\<close> being a keyword here.\<close>

definition setup_sketch :: "action list" where
  "setup_sketch = initializeSystem"

subsection \<open>Button, sensor, dashboard\<close>

text \<open>The argument is what \<open>digitalRead(BUTTON_PIN)\<close> returns.\<close>

definition checkButton :: "level \<Rightarrow> sys \<Rightarrow> sys \<times> action list" where
  "checkButton pin s =
     (if pin = LOW
      then (s\<lparr>systemMuted := True\<rparr>, [SerialPrintln '' ALERTS MUTED BY USER''] @ printDivider)
      else (s, []))"

text \<open>
  The arguments are what \<open>dht.readTemperature()\<close> and \<open>dht.readHumidity()\<close> return;
  the result holds the two reference parameters as the function leaves them. The
  \<open>return\<close> in the error branch leaves \<open>readSensors\<close> only, and it is the last
  statement of the function.
\<close>

definition readSensors :: "cfloat \<Rightarrow> cfloat \<Rightarrow> (cfloat \<times> cfloat) \<times> action list" where
  "readSensors dht_temp dht_hum =
     (let temp = dht_temp; humidity = dht_hum
      in if isnan temp \<or> isnan humidity
         then ((temp, humidity), [SerialPrintln '' ERROR: Failed to read from DHT11'', Delay 2000])
         else ((temp, humidity), []))"

definition updateDashboard :: "cfloat \<Rightarrow> cfloat \<Rightarrow> action list" where
  "updateDashboard temp humidity =
     printDivider
     @ [SerialPrint '' Temperature: '', SerialPrintFloat temp,
        SerialPrint '' C  |   Humidity: '', SerialPrintFloat humidity,
        SerialPrintln '' %'']
     @ printDivider"

subsection \<open>Alert sound management\<close>

text \<open>The argument \<open>now\<close> is what \<open>millis()\<close> returns at the start of the function.\<close>

definition playAlert :: "AlertState \<Rightarrow> ulong \<Rightarrow> sys \<Rightarrow> sys \<times> action list" where
  "playAlert state now s =
     (if state = OPTIMAL \<and> now - lastAlertTime s \<ge> word_of_int ALERT_INTERVAL
      then (s\<lparr>lastAlertTime := now\<rparr>,
            soundChime @ [SerialPrintln '' Optimal Temp: Perfect for sleep.''])
      else if state = CLOSE \<and> now - lastAlertTime s \<ge> word_of_int ALERT_INTERVAL
      then (s\<lparr>lastAlertTime := now\<rparr>,
            soundBeep @ [SerialPrintln '' Close: Temp is 25C.''])
      else if state = NEAR
      then (s\<lparr>lastAlertTime := now\<rparr>,
            [SerialPrintln '' Near Optimal: Prepare to sleep.''] @ soundLongBeep)
      else if state = IDLE
      then (s, [NoTone BUZZER_PIN])
      else (s, []))"

subsection \<open>The loop\<close>

text \<open>What one pass of \<open>loop()\<close> reads from the outside.\<close>

record cycle_input =
  button :: level          \<comment> \<open>\<open>digitalRead(BUTTON_PIN)\<close> in \<open>checkButton\<close>\<close>
  dht_temperature :: cfloat \<comment> \<open>\<open>dht.readTemperature()\<close>\<close>
  dht_humidity :: cfloat    \<comment> \<open>\<open>dht.readHumidity()\<close>\<close>
  now_loop :: ulong         \<comment> \<open>\<open>millis()\<close> in \<open>loop\<close>\<close>
  now_alert :: ulong        \<comment> \<open>\<open>millis()\<close> in \<open>playAlert\<close>\<close>

definition loop :: "sys \<Rightarrow> cycle_input \<Rightarrow> sys \<times> action list" where
  "loop s inp =
     (let (s1, a1) = checkButton (button inp) s
      in if systemMuted s1
         then (s1, a1 @ stopAlerts @ showMutedMessage @ [Delay 500])
         else
           let ((temperature, humidity), a2) =
                 readSensors (dht_temperature inp) (dht_humidity inp);
               now = now_loop inp;
               (s2, a3) =
                 (if now - lastSerialUpdate s1 \<ge> word_of_int SERIAL_REFRESH
                  then (s1\<lparr>lastSerialUpdate := now\<rparr>, updateDashboard temperature humidity)
                  else (s1, []));
               s3 = evaluateState temperature s2;
               (s4, a4) = playAlert (currentState s3) (now_alert inp) s3
           in (s4, a1 @ a2 @ a3 @ a4 @ [Delay 300]))"

text \<open>
  The states after each pass of the loop, for the inputs of successive passes, and
  the states the sketch can be in between two passes.
\<close>

fun run :: "sys \<Rightarrow> cycle_input list \<Rightarrow> sys list" where
  "run s [] = []"
| "run s (inp # inps) = fst (loop s inp) # run (fst (loop s inp)) inps"

inductive reachable :: "sys \<Rightarrow> bool" where
  start: "reachable initial"
| cycle: "reachable s \<Longrightarrow> reachable (fst (loop s inp))"

subsection \<open>The mute flag as the specification words it\<close>

text \<open>
  The specification describes the flag as a latch that a falling edge of the button
  input sets and nothing clears. \<open>spec_mute_flag prev flag bs\<close> gives the value of such
  a latch after each of the readings \<open>bs\<close>, from the latch value \<open>flag\<close> and the
  reading \<open>prev\<close> before the first of them; the input is pulled up, so it is HIGH
  before the first reading. It is compared with the sketch's flag below.
\<close>

fun spec_mute_flag :: "level \<Rightarrow> bool \<Rightarrow> level list \<Rightarrow> bool list" where
  "spec_mute_flag prev flag [] = []"
| "spec_mute_flag prev flag (b # bs) =
     (flag \<or> (prev = HIGH \<and> b = LOW))
     # spec_mute_flag b (flag \<or> (prev = HIGH \<and> b = LOW)) bs"

section \<open>Properties\<close>

subsection \<open>Evaluation of the comparisons\<close>

lemma evaluateState_Finite:
  "currentState (evaluateState (Finite t) s) =
     (if 22 \<le> t \<and> t \<le> 24 then OPTIMAL
      else if t = 25 then CLOSE
      else if (20 \<le> t \<and> t < 22) \<or> (24 < t \<and> t \<le> 26) then NEAR
      else IDLE)"
  by (simp add: evaluateState_def f_ge_def f_gt_def float_of_int_def
      TEMP_OPTIMAL_LOW_def TEMP_OPTIMAL_HIGH_def TEMP_NEAR_LOW_def TEMP_NEAR_HIGH_def
      TEMP_CLOSE_def)

subsection \<open>The classifier\<close>

text \<open>
  C1. The classifier is the threshold table, for every finite temperature \<open>t\<close>:
  it assigns OPTIMAL exactly when \<open>22 \<le> t \<le> 24\<close>, NEAR exactly when \<open>t\<close> is in
  \<open>[20, 22)\<close> or \<open>(24, 26]\<close> and is not 25, CLOSE exactly when \<open>t = 25\<close>, and IDLE
  exactly for the finite temperatures that are left, those below 20 or above 26.
\<close>

theorem evaluateState_threshold_table:
  "((currentState (evaluateState (Finite t) s) = OPTIMAL) = (22 \<le> t \<and> t \<le> 24))
   \<and> ((currentState (evaluateState (Finite t) s) = NEAR) =
        (((20 \<le> t \<and> t < 22) \<or> (24 < t \<and> t \<le> 26)) \<and> t \<noteq> 25))
   \<and> ((currentState (evaluateState (Finite t) s) = CLOSE) = (t = 25))
   \<and> ((currentState (evaluateState (Finite t) s) = IDLE) = (t < 20 \<or> 26 < t))"
  by (auto simp add: evaluateState_Finite)

text \<open>
  C5. The CLOSE branch compares for equality: the temperature 25.0 is classified
  CLOSE; 25.0001 is not (it is NEAR), whether taken as that decimal number or as the
  single-precision float nearest to it, \<open>25 + 52 / 2\<^sup>1\<^sup>9\<close>; and no float other than
  25.0, finite or not, is classified CLOSE.
\<close>

theorem evaluateState_close_exact:
  "currentState (evaluateState (Finite 25) s) = CLOSE
   \<and> currentState (evaluateState (Finite 25.0001) s) \<noteq> CLOSE
   \<and> currentState (evaluateState (Finite 25.0001) s) = NEAR
   \<and> currentState (evaluateState (Finite (25 + 52 / 2 ^ 19)) s) \<noteq> CLOSE
   \<and> ((currentState (evaluateState x s) = CLOSE) = (x = Finite 25))"
proof -
  have "(currentState (evaluateState x s) = CLOSE) = (x = Finite 25)"
  proof (cases x)
    case (Finite t)
    then show ?thesis by (simp add: evaluateState_Finite)
  qed (simp_all add: evaluateState_def f_ge_def f_gt_def float_of_int_def)
  then show ?thesis by (simp add: evaluateState_Finite)
qed

text \<open>
  C9. The classifier is defined on every float. On a NaN temperature each of the
  comparisons it makes is false, whatever the threshold, and \<open>evaluateState\<close> assigns
  IDLE, changing nothing else; on any float it assigns one of IDLE, OPTIMAL, CLOSE
  and NEAR.
\<close>

theorem evaluateState_NaN:
  "\<not> f_ge NaN c \<and> \<not> f_le NaN c \<and> \<not> f_eq NaN c \<and> \<not> f_lt NaN c \<and> \<not> f_gt NaN c
   \<and> evaluateState NaN s = s\<lparr>currentState := IDLE\<rparr>
   \<and> currentState (evaluateState x s) \<in> {IDLE, OPTIMAL, CLOSE, NEAR}"
proof -
  have cmp: "\<not> f_ge NaN c" "\<not> f_le NaN c" "\<not> f_eq NaN c" "\<not> f_lt NaN c" "\<not> f_gt NaN c"
    by (cases c; simp add: f_ge_def f_gt_def)+
  have "evaluateState NaN s = s\<lparr>currentState := IDLE\<rparr>"
    by (simp add: evaluateState_def cmp)
  moreover have "currentState (evaluateState x s) \<in> {IDLE, OPTIMAL, CLOSE, NEAR}"
    by (simp add: evaluateState_def)
  ultimately show ?thesis using cmp by simp
qed

subsection \<open>The alert scheduler\<close>

lemma alert_fired_playAlert:
  "alert_fired (snd (playAlert st now s)) =
     ((st = OPTIMAL \<or> st = CLOSE) \<and> 5000 \<le> now - lastAlertTime s \<or> st = NEAR)"
  by (cases st) (simp_all add: playAlert_def alert_fired_def soundChime_def soundBeep_def
      soundLongBeep_def ALERT_INTERVAL_def)

lemma lastAlertTime_playAlert:
  "lastAlertTime (fst (playAlert st now s)) =
     (if alert_fired (snd (playAlert st now s)) then now else lastAlertTime s)"
  by (cases st) (simp_all add: playAlert_def alert_fired_def soundChime_def soundBeep_def
      soundLongBeep_def)

lemma playAlert_not_fired:
  "\<not> alert_fired (snd (playAlert st now s)) \<Longrightarrow> fst (playAlert st now s) = s"
  by (cases st) (simp_all add: playAlert_def alert_fired_def soundChime_def soundBeep_def
      soundLongBeep_def split: if_splits)

text \<open>
  C2. Cooldown of the gated states. For a state \<open>st\<close> that is OPTIMAL or CLOSE,
  \<open>playAlert\<close> at clock value \<open>T\<close> fires exactly when \<open>T - lastAlertTime\<close>, in the
  sketch's 32-bit unsigned arithmetic, is at least 5000. If it fires it stores
  \<open>T\<close> in \<open>lastAlertTime\<close>; the next call for a gated state at \<open>T + 5000 - 1\<close> then
  does not fire and leaves the state as it is, and a call at \<open>T + 5000\<close> fires.
\<close>

theorem playAlert_cooldown:
  assumes "st = OPTIMAL \<or> st = CLOSE" and "st' = OPTIMAL \<or> st' = CLOSE"
  shows "alert_fired (snd (playAlert st T s)) = (5000 \<le> T - lastAlertTime s)
    \<and> (alert_fired (snd (playAlert st T s)) \<longrightarrow>
         lastAlertTime (fst (playAlert st T s)) = T
       \<and> \<not> alert_fired (snd (playAlert st' (T + 5000 - 1) (fst (playAlert st T s))))
       \<and> fst (playAlert st' (T + 5000 - 1) (fst (playAlert st T s))) = fst (playAlert st T s)
       \<and> alert_fired (snd (playAlert st' (T + 5000) (fst (playAlert st T s)))))"
  using assms
  by (auto simp add: alert_fired_playAlert lastAlertTime_playAlert playAlert_not_fired)

theorem playAlert_cooldown_witness:
  "alert_fired (snd (playAlert OPTIMAL 5000 initial))
   \<and> lastAlertTime (fst (playAlert OPTIMAL 5000 initial)) = 5000
   \<and> \<not> alert_fired (snd (playAlert CLOSE 9999 (fst (playAlert OPTIMAL 5000 initial))))
   \<and> alert_fired (snd (playAlert CLOSE 10000 (fst (playAlert OPTIMAL 5000 initial))))"
  using playAlert_cooldown [of OPTIMAL CLOSE 5000 initial]
  by (simp add: initial_def)

text \<open>
  C3. In state NEAR \<open>playAlert\<close> fires on every call, whatever the clock and the
  stored time of the last alert are: it prints its line, sounds the long beep, and
  stores the clock value it read in \<open>lastAlertTime\<close>.
\<close>

theorem playAlert_near_always_fires:
  "playAlert NEAR now s =
     (s\<lparr>lastAlertTime := now\<rparr>,
      [SerialPrintln '' Near Optimal: Prepare to sleep.'',
       Tone BUZZER_PIN 1000 None, Delay 5000, NoTone BUZZER_PIN])
   \<and> alert_fired (snd (playAlert NEAR now s))
   \<and> lastAlertTime (fst (playAlert NEAR now s)) = now"
  by (simp add: playAlert_def soundLongBeep_def alert_fired_def)

subsection \<open>One pass of the loop\<close>

text \<open>
  The loop tests the mute flag after \<open>checkButton\<close>, so a pass takes the muted branch
  when the flag was set before or the button reads LOW in this pass.
\<close>

lemma loop_muted:
  assumes "systemMuted s \<or> button inp = LOW"
  shows "loop s inp =
     (s\<lparr>systemMuted := True\<rparr>,
      (if button inp = LOW
       then [SerialPrintln '' ALERTS MUTED BY USER''] @ printDivider else [])
      @ stopAlerts @ showMutedMessage @ [Delay 500])"
  using assms by (auto simp add: loop_def checkButton_def)

lemma loop_unmuted:
  assumes "\<not> systemMuted s" and "button inp \<noteq> LOW"
  shows "loop s inp =
    (let a2 = snd (readSensors (dht_temperature inp) (dht_humidity inp));
         s2 = (if 1000 \<le> now_loop inp - lastSerialUpdate s
               then s\<lparr>lastSerialUpdate := now_loop inp\<rparr> else s);
         a3 = (if 1000 \<le> now_loop inp - lastSerialUpdate s
               then updateDashboard (dht_temperature inp) (dht_humidity inp) else []);
         s3 = evaluateState (dht_temperature inp) s2;
         r = playAlert (currentState s3) (now_alert inp) s3
     in (fst r, a2 @ a3 @ snd r @ [Delay 300]))"
  using assms
  by (simp add: loop_def checkButton_def readSensors_def Let_def SERIAL_REFRESH_def
      split: prod.splits)

lemma alert_fired_append: "alert_fired (xs @ ys) = (alert_fired xs \<or> alert_fired ys)"
  by (simp add: alert_fired_def list_ex_iff) blast

lemma alert_fired_Cons: "alert_fired (a # xs) = (is_tone a \<or> alert_fired xs)"
  by (simp add: alert_fired_def)

lemma not_fired_prints:
  "\<not> alert_fired (snd (readSensors t h))" "\<not> alert_fired (updateDashboard t h)"
  "\<not> alert_fired [Delay n]" "\<not> alert_fired []"
  "\<not> alert_fired stopAlerts" "\<not> alert_fired showMutedMessage" "\<not> alert_fired printDivider"
  "\<not> alert_fired (snd (checkButton p s))" "\<not> alert_fired [SerialPrintln m]"
  by (simp_all add: alert_fired_def readSensors_def updateDashboard_def printDivider_def
      stopAlerts_def showMutedMessage_def checkButton_def)

lemma systemMuted_playAlert: "systemMuted (fst (playAlert st now s)) = systemMuted s"
  by (simp add: playAlert_def)

lemma currentState_playAlert: "currentState (fst (playAlert st now s)) = currentState s"
  by (simp add: playAlert_def)

lemma systemMuted_loop:
  "systemMuted (fst (loop s inp)) = (systemMuted s \<or> button inp = LOW)"
proof (cases "systemMuted s \<or> button inp = LOW")
  case True
  then show ?thesis by (simp add: loop_muted)
next
  case False
  then show ?thesis
    by (simp add: loop_unmuted Let_def systemMuted_playAlert evaluateState_def)
qed

lemma lastAlertTime_loop:
  "lastAlertTime (fst (loop s inp)) =
     (if alert_fired (snd (loop s inp)) then now_alert inp else lastAlertTime s)"
proof (cases "systemMuted s \<or> button inp = LOW")
  case True
  then show ?thesis
    by (simp add: loop_muted alert_fired_append alert_fired_Cons not_fired_prints)
next
  case False
  then show ?thesis
    by (simp add: loop_unmuted Let_def alert_fired_append not_fired_prints
        lastAlertTime_playAlert evaluateState_def)
qed

lemma currentState_loop_not_MUTE:
  assumes "currentState s \<noteq> MUTE"
  shows "currentState (fst (loop s inp)) \<noteq> MUTE"
proof (cases "systemMuted s \<or> button inp = LOW")
  case True
  with assms show ?thesis by (simp add: loop_muted)
next
  case False
  then show ?thesis
    by (simp add: loop_unmuted Let_def currentState_playAlert evaluateState_def)
qed

text \<open>Unfolding everything, to evaluate the sketch on given inputs.\<close>

lemmas sketch_defs = loop_def checkButton_def readSensors_def evaluateState_def playAlert_def
  updateDashboard_def printDivider_def stopAlerts_def showMutedMessage_def soundChime_def
  soundBeep_def soundLongBeep_def f_ge_def f_gt_def float_of_int_def initial_def
  TEMP_OPTIMAL_LOW_def TEMP_OPTIMAL_HIGH_def TEMP_NEAR_LOW_def TEMP_NEAR_HIGH_def
  TEMP_CLOSE_def ALERT_INTERVAL_def SERIAL_REFRESH_def BUZZER_PIN_def alert_fired_def

text \<open>
  C6. While the mute flag is set, a pass of the loop evaluates no state and fires no
  alert. When the flag is set at the test in \<open>loop\<close> (it was set before the pass, or
  the button reads LOW in it), the pass only stops the buzzer, prints the muted
  message and waits: the state is as before apart from the flag, no tone is started,
  and neither the result nor the output depends on the sensor values or the clock,
  which the classifier and the scheduler would have read.
\<close>

theorem loop_while_muted:
  assumes "systemMuted s \<or> button inp = LOW"
  shows "loop s inp =
     (s\<lparr>systemMuted := True\<rparr>,
      (if button inp = LOW
       then [SerialPrintln '' ALERTS MUTED BY USER''] @ printDivider else [])
      @ [NoTone BUZZER_PIN, SerialPrintln '' SYSTEM IS IN SILENT MODE'', Delay 500])
   \<and> currentState (fst (loop s inp)) = currentState s
   \<and> lastAlertTime (fst (loop s inp)) = lastAlertTime s
   \<and> \<not> alert_fired (snd (loop s inp))
   \<and> loop s (inp\<lparr>dht_temperature := t, dht_humidity := h, now_loop := n, now_alert := n'\<rparr>)
       = loop s inp"
proof -
  let ?inp' = "inp\<lparr>dht_temperature := t, dht_humidity := h, now_loop := n, now_alert := n'\<rparr>"
  have "systemMuted s \<or> button ?inp' = LOW"
    using assms by simp
  then have "loop s ?inp' = loop s inp"
    using assms by (simp add: loop_muted)
  moreover have "\<not> alert_fired (snd (loop s inp))"
    using assms
    by (simp add: loop_muted alert_fired_append alert_fired_Cons not_fired_prints)
  ultimately show ?thesis
    using assms by (simp add: loop_muted stopAlerts_def showMutedMessage_def)
qed

theorem loop_while_muted_witness:
  "systemMuted \<lparr>currentState = OPTIMAL, systemMuted = True,
                 lastAlertTime = 6001, lastSerialUpdate = 6000\<rparr>
   \<and> loop \<lparr>currentState = OPTIMAL, systemMuted = True,
            lastAlertTime = 6001, lastSerialUpdate = 6000\<rparr>
          \<lparr>button = HIGH, dht_temperature = Finite 21, dht_humidity = Finite 50,
           now_loop = 20000, now_alert = 20001\<rparr>
     = (\<lparr>currentState = OPTIMAL, systemMuted = True,
         lastAlertTime = 6001, lastSerialUpdate = 6000\<rparr>,
        [NoTone 8, SerialPrintln '' SYSTEM IS IN SILENT MODE'', Delay 500])"
  using loop_while_muted
    [of "\<lparr>currentState = OPTIMAL, systemMuted = True,
          lastAlertTime = 6001, lastSerialUpdate = 6000\<rparr>"
        "\<lparr>button = HIGH, dht_temperature = Finite 21, dht_humidity = Finite 50,
          now_loop = 20000, now_alert = 20001\<rparr>"]
  by (simp add: BUZZER_PIN_def)

text \<open>
  C4. An invalid sensor sample does not stop the pass. After a pass with a valid
  sample of 23 degrees at clock 6000 the state is OPTIMAL with the alert fired at
  6001. In the next pass both sensor values are NaN: \<open>readSensors\<close> prints its error
  and waits, then the loop goes on, prints the dashboard with the NaN values,
  \<open>evaluateState\<close> turns the state from OPTIMAL to IDLE and \<open>playAlert\<close> silences the
  buzzer. With a NaN humidity alone and a temperature of 21 degrees, the pass sets
  the state to NEAR, sounds the long beep and stores a new time of the last alert.
\<close>

theorem loop_invalid_sample_evaluated:
  "fst (loop initial
         \<lparr>button = HIGH, dht_temperature = Finite 23, dht_humidity = Finite 50,
          now_loop = 6000, now_alert = 6001\<rparr>)
     = \<lparr>currentState = OPTIMAL, systemMuted = False,
        lastAlertTime = 6001, lastSerialUpdate = 6000\<rparr>
   \<and> loop \<lparr>currentState = OPTIMAL, systemMuted = False,
            lastAlertTime = 6001, lastSerialUpdate = 6000\<rparr>
          \<lparr>button = HIGH, dht_temperature = NaN, dht_humidity = NaN,
           now_loop = 8301, now_alert = 8302\<rparr>
     = (\<lparr>currentState = IDLE, systemMuted = False,
         lastAlertTime = 6001, lastSerialUpdate = 8301\<rparr>,
        [SerialPrintln '' ERROR: Failed to read from DHT11'', Delay 2000,
         SerialPrintln ''------------------------------------------'',
         SerialPrint '' Temperature: '', SerialPrintFloat NaN,
         SerialPrint '' C  |   Humidity: '', SerialPrintFloat NaN,
         SerialPrintln '' %'',
         SerialPrintln ''------------------------------------------'',
         NoTone 8, Delay 300])
   \<and> loop \<lparr>currentState = OPTIMAL, systemMuted = False,
            lastAlertTime = 6001, lastSerialUpdate = 6000\<rparr>
          \<lparr>button = HIGH, dht_temperature = Finite 21, dht_humidity = NaN,
           now_loop = 8301, now_alert = 8302\<rparr>
     = (\<lparr>currentState = NEAR, systemMuted = False,
         lastAlertTime = 8302, lastSerialUpdate = 8301\<rparr>,
        [SerialPrintln '' ERROR: Failed to read from DHT11'', Delay 2000,
         SerialPrintln ''------------------------------------------'',
         SerialPrint '' Temperature: '', SerialPrintFloat (Finite 21),
         SerialPrint '' C  |   Humidity: '', SerialPrintFloat NaN,
         SerialPrintln '' %'',
         SerialPrintln ''------------------------------------------'',
         SerialPrintln '' Near Optimal: Prepare to sleep.'',
         Tone 8 1000 None, Delay 5000, NoTone 8, Delay 300])"
  by (simp add: sketch_defs)

subsection \<open>Runs of the loop\<close>

lemma run_systemMuted:
  "map systemMuted (run s inps) =
     (if systemMuted s then replicate (length inps) True
      else replicate (length (takeWhile (\<lambda>i. button i = HIGH) inps)) False
           @ replicate (length inps - length (takeWhile (\<lambda>i. button i = HIGH) inps)) True)"
proof (induction inps arbitrary: s)
  case Nil
  then show ?case by simp
next
  case (Cons inp inps)
  show ?case
  proof (cases "button inp")
    case LOW
    then show ?thesis by (simp add: Cons.IH systemMuted_loop)
  next
    case HIGH
    then show ?thesis
      by (simp add: Cons.IH systemMuted_loop Suc_diff_le length_takeWhile_le)
  qed
qed

lemma run_spec_mute_flag:
  assumes "prev = LOW \<longrightarrow> systemMuted s"
  shows "map systemMuted (run s inps) = spec_mute_flag prev (systemMuted s) (map button inps)"
  using assms
proof (induction inps arbitrary: s prev)
  case Nil
  then show ?case by simp
next
  case (Cons inp inps)
  have held: "button inp = LOW \<longrightarrow> systemMuted (fst (loop s inp))"
    by (simp add: systemMuted_loop)
  have "systemMuted (fst (loop s inp)) =
          (systemMuted s \<or> (prev = HIGH \<and> button inp = LOW))"
    using Cons.prems by (cases prev) (auto simp add: systemMuted_loop)
  with Cons.IH [OF held] show ?case by simp
qed

lemma run_lastAlertTime_sorted:
  assumes "sorted (map now_alert inps)"
    and "\<forall>i \<in> set inps. lastAlertTime s \<le> now_alert i"
  shows "sorted (map lastAlertTime (s # run s inps))"
  using assms
proof (induction inps arbitrary: s)
  case Nil
  then show ?case by simp
next
  case (Cons inp inps)
  let ?s' = "fst (loop s inp)"
  have step: "lastAlertTime ?s' = now_alert inp \<or> lastAlertTime ?s' = lastAlertTime s"
    by (simp add: lastAlertTime_loop)
  have le: "lastAlertTime s \<le> lastAlertTime ?s'"
    using step Cons.prems(2) by auto
  have later: "\<forall>i \<in> set inps. lastAlertTime ?s' \<le> now_alert i"
    using step Cons.prems by auto
  have tail: "sorted (map lastAlertTime (?s' # run ?s' inps))"
    using Cons.IH [of ?s'] Cons.prems(1) later by simp
  have "\<forall>x \<in> set (map lastAlertTime (?s' # run ?s' inps)). lastAlertTime s \<le> x"
    using tail le by (auto simp del: run.simps)
  with tail show ?case by simp
qed

text \<open>
  C7. The mute flag is false at startup. A pass of the loop leaves it true if it
  was true, and otherwise makes it true exactly when the button pin reads LOW in
  that pass. So along any run from the start the flag is false until the first pass
  in which the pin reads LOW and true from that pass on: it goes from false to true
  once, at that reading, and is never cleared. After every pass of every run it has
  the value of a latch set by a falling edge of the button input and never cleared.
\<close>

theorem systemMuted_sticky:
  "\<not> systemMuted initial
   \<and> systemMuted (fst (loop s inp)) = (systemMuted s \<or> button inp = LOW)
   \<and> map systemMuted (initial # run initial inps) =
       replicate (Suc (length (takeWhile (\<lambda>i. button i = HIGH) inps))) False
       @ replicate (length inps - length (takeWhile (\<lambda>i. button i = HIGH) inps)) True
   \<and> map systemMuted (run initial inps) = spec_mute_flag HIGH False (map button inps)"
proof -
  have start: "\<not> systemMuted initial"
    by (simp add: initial_def)
  have "map systemMuted (run initial inps)
          = spec_mute_flag HIGH (systemMuted initial) (map button inps)"
    by (rule run_spec_mute_flag) simp
  with start show ?thesis
    by (simp add: systemMuted_loop run_systemMuted)
qed

text \<open>
  C8. The time of the last alert is written by \<open>playAlert\<close> only, and only when it
  fires: \<open>checkButton\<close> and \<open>evaluateState\<close> leave it alone, \<open>playAlert\<close> sets it to
  the clock value it read when it starts a tone and leaves it alone otherwise, and
  so does a whole pass of the loop. Hence, when the clock values that \<open>playAlert\<close>
  reads never decrease from one pass to the next, the time of the last alert never
  decreases along a run from the start.
\<close>

theorem lastAlertTime_only_advances:
  "lastAlertTime (fst (checkButton p s)) = lastAlertTime s
   \<and> lastAlertTime (evaluateState temp s) = lastAlertTime s
   \<and> lastAlertTime (fst (playAlert st now s)) =
       (if alert_fired (snd (playAlert st now s)) then now else lastAlertTime s)
   \<and> lastAlertTime (fst (loop s inp)) =
       (if alert_fired (snd (loop s inp)) then now_alert inp else lastAlertTime s)
   \<and> (sorted (map now_alert inps) \<longrightarrow>
        sorted (map lastAlertTime (initial # run initial inps)))"
proof -
  have "sorted (map lastAlertTime (initial # run initial inps))"
    if "sorted (map now_alert inps)"
    using that by (rule run_lastAlertTime_sorted) (simp add: initial_def)
  then show ?thesis
    by (simp add: lastAlertTime_playAlert lastAlertTime_loop checkButton_def evaluateState_def)
qed

theorem lastAlertTime_only_advances_witness:
  "sorted (map now_alert
     [\<lparr>button = HIGH, dht_temperature = Finite 23, dht_humidity = Finite 50,
       now_loop = 6000, now_alert = 6001\<rparr>,
      \<lparr>button = HIGH, dht_temperature = Finite 21, dht_humidity = Finite 50,
       now_loop = 7000, now_alert = 7001\<rparr>,
      \<lparr>button = HIGH, dht_temperature = Finite 30, dht_humidity = Finite 50,
       now_loop = 13000, now_alert = 13001\<rparr>])
   \<and> sorted (map lastAlertTime (initial # run initial
     [\<lparr>button = HIGH, dht_temperature = Finite 23, dht_humidity = Finite 50,
       now_loop = 6000, now_alert = 6001\<rparr>,
      \<lparr>button = HIGH, dht_temperature = Finite 21, dht_humidity = Finite 50,
       now_loop = 7000, now_alert = 7001\<rparr>,
      \<lparr>button = HIGH, dht_temperature = Finite 30, dht_humidity = Finite 50,
       now_loop = 13000, now_alert = 13001\<rparr>]))
   \<and> map lastAlertTime (initial # run initial
     [\<lparr>button = HIGH, dht_temperature = Finite 23, dht_humidity = Finite 50,
       now_loop = 6000, now_alert = 6001\<rparr>,
      \<lparr>button = HIGH, dht_temperature = Finite 21, dht_humidity = Finite 50,
       now_loop = 7000, now_alert = 7001\<rparr>,
      \<lparr>button = HIGH, dht_temperature = Finite 30, dht_humidity = Finite 50,
       now_loop = 13000, now_alert = 13001\<rparr>]) = [0, 6001, 7001, 7001]"
proof -
  let ?inps = "[\<lparr>button = HIGH, dht_temperature = Finite 23, dht_humidity = Finite 50,
       now_loop = 6000, now_alert = 6001\<rparr>,
      \<lparr>button = HIGH, dht_temperature = Finite 21, dht_humidity = Finite 50,
       now_loop = 7000, now_alert = 7001\<rparr>,
      \<lparr>button = HIGH, dht_temperature = Finite 30, dht_humidity = Finite 50,
       now_loop = 13000, now_alert = (13001 :: ulong)\<rparr>]"
  have clock: "sorted (map now_alert ?inps)"
    by simp
  have times: "map lastAlertTime (initial # run initial ?inps) = [0, 6001, 7001, 7001]"
    by (simp add: sketch_defs)
  from lastAlertTime_only_advances [of _ _ _ _ _ _ ?inps] clock
  have "sorted (map lastAlertTime (initial # run initial ?inps))"
    by blast
  with clock times show ?thesis
    by blast
qed

text \<open>
  C10. The current state is never MUTE in a state the sketch can reach: it starts
  as IDLE, \<open>evaluateState\<close> assigns one of IDLE, OPTIMAL, CLOSE and NEAR, and
  \<open>checkButton\<close> and \<open>playAlert\<close> do not assign it; muting is held in the flag
  \<open>systemMuted\<close>.
\<close>

theorem currentState_never_MUTE:
  assumes "reachable s"
  shows "currentState s \<noteq> MUTE
   \<and> currentState (evaluateState temp s) \<noteq> MUTE
   \<and> currentState (fst (checkButton p s)) = currentState s
   \<and> currentState (fst (playAlert st now s)) = currentState s"
proof -
  from assms have "currentState s \<noteq> MUTE"
  proof (induction rule: reachable.induct)
    case start
    show ?case by (simp add: initial_def)
  next
    case (cycle s inp)
    from cycle.IH show ?case by (rule currentState_loop_not_MUTE)
  qed
  then show ?thesis
    by (simp add: currentState_playAlert checkButton_def evaluateState_def)
qed

theorem currentState_never_MUTE_witness:
  "reachable (fst (loop initial
      \<lparr>button = LOW, dht_temperature = Finite 23, dht_humidity = Finite 50,
       now_loop = 6000, now_alert = 6001\<rparr>))
   \<and> systemMuted (fst (loop initial
      \<lparr>button = LOW, dht_temperature = Finite 23, dht_humidity = Finite 50,
       now_loop = 6000, now_alert = 6001\<rparr>))
   \<and> currentState (fst (loop initial
      \<lparr>button = LOW, dht_temperature = Finite 23, dht_humidity = Finite 50,
       now_loop = 6000, now_alert = 6001\<rparr>)) \<noteq> MUTE"
proof -
  let ?s = "fst (loop initial
      \<lparr>button = LOW, dht_temperature = Finite 23, dht_humidity = Finite 50,
       now_loop = 6000, now_alert = 6001\<rparr>)"
  have r: "reachable ?s"
    by (rule reachable.cycle [OF reachable.start])
  have "systemMuted ?s"
    by (simp add: systemMuted_loop)
  with r currentState_never_MUTE [OF r] show ?thesis
    by blast
qed

end
